theory Spec2Isabelle
  imports Main "HOL-Library.Sublist"
begin

section \<open>Strings\<close>

text \<open>
  A JavaScript string is a sequence of UTF-16 code units. The embedding uses \<open>string\<close>
  (a list of 8-bit characters), read as the code units U+0000 to U+00FF; host names,
  tokens and the texts the worker builds itself all lie in that range.
\<close>

abbreviation backslash :: char where
  "backslash \<equiv> CHR 0x5C"

abbreviation apostrophe :: char where
  "apostrophe \<equiv> CHR 0x27"

abbreviation dquote :: char where
  "dquote \<equiv> CHR 0x22"

abbreviation newline :: char where
  "newline \<equiv> CHR 0x0A"

text \<open>\<open>WhiteSpace\<close> and \<open>LineTerminator\<close> of ECMAScript below U+0100: what \<open>trim\<close> strips.\<close>

definition white_space :: "char \<Rightarrow> bool" where
  "white_space c =
     (c \<in> set [CHR 0x09, CHR 0x0A, CHR 0x0B, CHR 0x0C, CHR 0x0D, CHR 0x20, CHR 0xA0])"

text \<open>\<open>LineTerminator\<close> below U+0100: the code units a \<open>.\<close> of a RegExp does not match.\<close>

definition line_terminator :: "char \<Rightarrow> bool" where
  "line_terminator c = (c \<in> set [CHR 0x0A, CHR 0x0D])"

text \<open>\<open>String.prototype.trim\<close>.\<close>

definition trim :: "string \<Rightarrow> string" where
  "trim s = rev (dropWhile white_space (rev (dropWhile white_space s)))"

text \<open>\<open>str.split(/,/)\<close>: the pieces between the commas, at least one piece.\<close>

fun split_comma :: "string \<Rightarrow> string list" where
  "split_comma [] = [[]]"
| "split_comma (c # cs) =
     (if c = CHR '','' then [] # split_comma cs
      else (case split_comma cs of
              [] \<Rightarrow> [[c]]
            | p # ps \<Rightarrow> (c # p) # ps))"

text \<open>
  \<open>str.replace(pattern, replacement)\<close> with a string pattern: only the first occurrence
  is replaced. The replacement is inserted as it is (the worker's replacement text
  \<open>.+\<close> has no \<open>$\<close> pattern).
\<close>

fun replace_first :: "string \<Rightarrow> string \<Rightarrow> string \<Rightarrow> string" where
  "replace_first pat rep [] = (if pat = [] then rep else [])"
| "replace_first pat rep (c # cs) =
     (if prefix pat (c # cs) then rep @ drop (length pat) (c # cs)
      else c # replace_first pat rep cs)"

text \<open>\<open>str.replaceAll('-', '')\<close>.\<close>

definition remove_hyphens :: "string \<Rightarrow> string" where
  "remove_hyphens s = filter (\<lambda>c. c \<noteq> CHR ''-'') s"

section \<open>escapeRegExp\<close>

text \<open>The character class \<open>[.*+?^${}()|[\]\\]\<close> of \<open>escapeRegExp\<close>.\<close>

definition regexp_special :: "char \<Rightarrow> bool" where
  "regexp_special c = (c \<in> set (''.*+?^${}()|[]'' @ [backslash]))"

text \<open>
  \<open>str.replace(/[.*+?^${}()|[\]\\]/g, '\\$&')\<close>: every character of the class gets a
  backslash in front of it, every other character stays.
\<close>

primrec escapeRegExp :: "string \<Rightarrow> string" where
  "escapeRegExp [] = []"
| "escapeRegExp (c # cs) =
     (if regexp_special c then [backslash, c] else [c]) @ escapeRegExp cs"

section \<open>The regular expressions of the allow-list\<close>

text \<open>
  \<open>new RegExp(source)\<close> and \<open>String.prototype.match\<close> are modelled for the sources
  of the form \<open>^ term* $\<close>, where a term is an atom or an atom followed by \<open>+\<close> and an
  atom is \<open>.\<close>, an escaped syntax character or a character that is not a syntax
  character. \<open>RegExp\<close> returns \<open>None\<close> for every other source; the worker never builds
  one (\<open>RegExp_allow_pattern\<close> below).
\<close>

datatype atom = Lit char | AnyChar

datatype item = One atom | Plus atom

type_synonym regexp = "item list"

text \<open>\<open>SyntaxCharacter\<close> of the ECMAScript pattern grammar.\<close>

definition syntax_character :: "char \<Rightarrow> bool" where
  "syntax_character c = (c \<in> set (''^$'' @ [backslash] @ ''.*+?()[]{}|''))"

fun parse_atom :: "string \<Rightarrow> (atom \<times> string) option" where
  "parse_atom [] = None"
| "parse_atom (c # cs) =
     (if c = backslash then
        (case cs of
           [] \<Rightarrow> None
         | d # ds \<Rightarrow> if syntax_character d then Some (Lit d, ds) else None)
      else if c = CHR ''.'' then Some (AnyChar, cs)
      else if syntax_character c then None
      else Some (Lit c, cs))"

function parse_terms :: "string \<Rightarrow> regexp option" where
  "parse_terms s =
     (if s = ''$'' then Some []
      else (case parse_atom s of
              None \<Rightarrow> None
            | Some (a, r) \<Rightarrow>
                (case r of
                   [] \<Rightarrow> None
                 | q # r' \<Rightarrow>
                     if q = CHR ''+'' then map_option ((#) (Plus a)) (parse_terms r')
                     else map_option ((#) (One a)) (parse_terms r))))"
  by pat_completeness auto
termination
  by (relation "measure length")
    (auto elim!: parse_atom.elims split: if_splits list.splits)

declare parse_terms.simps [simp del]

definition RegExp :: "string \<Rightarrow> regexp option" where
  "RegExp source =
     (case source of
        [] \<Rightarrow> None
      | c # cs \<Rightarrow> if c = CHR ''^'' then parse_terms cs else None)"

definition atom_matches :: "atom \<Rightarrow> char \<Rightarrow> bool" where
  "atom_matches a c = (case a of Lit x \<Rightarrow> c = x | AnyChar \<Rightarrow> \<not> line_terminator c)"

text \<open>
  \<open>str.match(re)\<close> is not null: the terms match the whole of the string, from its
  start (\<open>^\<close>) to its end (\<open>$\<close>, no \<open>m\<close> flag). A \<open>+\<close> is greedy: the matcher tries one
  more repetition first and the rest of the pattern after that.
\<close>

fun match_terms :: "regexp \<Rightarrow> string \<Rightarrow> bool" where
  "match_terms [] s = (s = [])"
| "match_terms (One a # r) [] = False"
| "match_terms (One a # r) (c # s) = (atom_matches a c \<and> match_terms r s)"
| "match_terms (Plus a # r) [] = False"
| "match_terms (Plus a # r) (c # s) =
     (atom_matches a c \<and> (match_terms (Plus a # r) s \<or> match_terms r s))"

text \<open>The terms of a source in which every character stands for itself.\<close>

abbreviation literal :: "string \<Rightarrow> regexp" where
  "literal p \<equiv> map (\<lambda>c. One (Lit c)) p"

section \<open>The domain check of handleAuth\<close>

text \<open>The source of the regular expression built for one entry of \<open>ALLOWED_DOMAINS\<close>.\<close>

definition allow_pattern :: "string \<Rightarrow> string" where
  "allow_pattern str =
     ''^'' @ replace_first [backslash, CHR ''*''] ''.+'' (escapeRegExp (trim str)) @ ''$''"

datatype failure = Unsupported_RegExp

text \<open>The callback of \<open>some\<close>: does the domain match this entry.\<close>

definition domain_matches :: "string \<Rightarrow> string \<Rightarrow> failure + bool" where
  "domain_matches str domain =
     (case RegExp (allow_pattern str) of
        None \<Rightarrow> Inl Unsupported_RegExp
      | Some re \<Rightarrow> Inr (match_terms re domain))"

text \<open>\<open>Array.prototype.some\<close>: left to right, stopping at the first entry that matches.\<close>

fun some_domain_matches :: "string list \<Rightarrow> string \<Rightarrow> failure + bool" where
  "some_domain_matches [] domain = Inr False"
| "some_domain_matches (str # strs) domain =
     (case domain_matches str domain of
        Inl e \<Rightarrow> Inl e
      | Inr True \<Rightarrow> Inr True
      | Inr False \<Rightarrow> some_domain_matches strs domain)"

section \<open>Requests, configuration and responses\<close>

text \<open>
  The parts of the \<open>Request\<close> the worker reads: the method, the path and the query
  entries of \<open>new URL(url)\<close> (in the order of the URL, duplicates kept) and the value of
  \<open>headers.get('Cookie')\<close>, \<open>None\<close> when the header is absent.
\<close>

record request =
  "method" :: string
  pathname :: string
  searchParams :: "(string \<times> string) list"
  cookie :: "string option"

text \<open>The environment variables; \<open>None\<close> is a variable that is not set.\<close>

record env =
  ALLOWED_DOMAINS :: "string option"
  GITHUB_CLIENT_ID :: "string option"
  GITHUB_CLIENT_SECRET :: "string option"
  GITHUB_HOSTNAME :: "string option"

text \<open>
  A \<open>Response\<close>: the status, the body and the headers the worker passes to the
  constructor, in the order it writes them.
\<close>

record response =
  status :: nat
  body :: string
  headers :: "(string \<times> string) list"

text \<open>\<open>Object.fromEntries(searchParams)\<close>: for a repeated key the last entry wins.\<close>

definition fromEntries :: "(string \<times> string) list \<Rightarrow> string \<Rightarrow> string option" where
  "fromEntries entries key = map_of (rev entries) key"

text \<open>A string variable in a condition: \<open>undefined\<close> and the empty string are falsy.\<close>

definition truthy_string :: "string option \<Rightarrow> bool" where
  "truthy_string v = (case v of None \<Rightarrow> False | Some s \<Rightarrow> s \<noteq> [])"

section \<open>JSON values and JSON.stringify\<close>

text \<open>
  A value as \<open>JSON.parse\<close> returns it. A number is kept as what the program can
  observe of it: whether it is non-zero (its truthiness) and the text
  \<open>JSON.stringify\<close> prints for it. An object is the list of its own properties in
  enumeration order. \<open>undefined\<close> is \<open>None\<close> of \<open>json option\<close>.
\<close>

datatype json =
    JNull
  | JBool bool
  | JNum bool string
  | JStr string
  | JArr "json list"
  | JObj "(string \<times> json) list"

fun truthy :: "json option \<Rightarrow> bool" where
  "truthy None = False"
| "truthy (Some JNull) = False"
| "truthy (Some (JBool b)) = b"
| "truthy (Some (JNum nonzero text)) = nonzero"
| "truthy (Some (JStr s)) = (s \<noteq> [])"
| "truthy (Some (JArr xs)) = True"
| "truthy (Some (JObj ps)) = True"

fun join :: "string \<Rightarrow> string list \<Rightarrow> string" where
  "join sep [] = []"
| "join sep [x] = x"
| "join sep (x # y # ys) = x @ sep @ join sep (y # ys)"

definition hex_lower :: "nat \<Rightarrow> char" where
  "hex_lower n = ''0123456789abcdef'' ! (n mod 16)"

text \<open>\<open>QuoteJSONString\<close>, one code unit.\<close>

definition quote_char :: "char \<Rightarrow> string" where
  "quote_char c =
     (if c = CHR 0x08 then [backslash, CHR ''b'']
      else if c = CHR 0x09 then [backslash, CHR ''t'']
      else if c = CHR 0x0A then [backslash, CHR ''n'']
      else if c = CHR 0x0C then [backslash, CHR ''f'']
      else if c = CHR 0x0D then [backslash, CHR ''r'']
      else if c = dquote then [backslash, dquote]
      else if c = backslash then [backslash, backslash]
      else if (of_char c :: nat) < 32 then
        [backslash, CHR ''u'', CHR ''0'', CHR ''0'',
         hex_lower (of_char c div 16), hex_lower (of_char c)]
      else [c])"

definition QuoteJSONString :: "string \<Rightarrow> string" where
  "QuoteJSONString s = [dquote] @ concat (map quote_char s) @ [dquote]"

fun stringify :: "json \<Rightarrow> string" where
  "stringify JNull = ''null''"
| "stringify (JBool b) = (if b then ''true'' else ''false'')"
| "stringify (JNum nonzero text) = text"
| "stringify (JStr s) = QuoteJSONString s"
| "stringify (JArr xs) = ''['' @ join '','' (map stringify xs) @ '']''"
| "stringify (JObj ps) =
     ''{'' @ join '','' (map (\<lambda>p. QuoteJSONString (fst p) @ '':'' @ stringify (snd p)) ps) @ ''}''"

text \<open>
  \<open>JSON.stringify\<close> of an object literal whose property values may be \<open>undefined\<close>:
  such a property is left out.
\<close>

definition stringify_object :: "(string \<times> json option) list \<Rightarrow> string" where
  "stringify_object props =
     ''{'' @ join '',''
       (concat (map (\<lambda>p. case snd p of
                            None \<Rightarrow> []
                          | Some v \<Rightarrow> [QuoteJSONString (fst p) @ '':'' @ stringify v]) props))
     @ ''}''"

section \<open>outputHTML\<close>

record args =
  provider :: "string option"
  token :: "json option"
  error :: "json option"
  errorCode :: "json option"

text \<open>The template literal of \<open>outputHTML\<close>, with its three interpolated values.\<close>

definition html_template :: "string \<Rightarrow> string \<Rightarrow> string \<Rightarrow> string" where
  "html_template prov state content =
     [newline] @
     ''      <!doctype html><html><body><script>'' @ [newline] @
     ''        (() => {'' @ [newline] @
     ''          window.addEventListener('' @ [apostrophe] @ ''message'' @ [apostrophe] @ '', ({ data, origin }) => {'' @ [newline] @
     ''            if (data === '' @ [apostrophe] @ ''authorizing:'' @ prov @ [apostrophe] @ '') {'' @ [newline] @
     ''              window.opener?.postMessage('' @ [newline] @
     ''                '' @ [apostrophe] @ ''authorization:'' @ prov @ '':'' @ state @ '':'' @ content @ [apostrophe] @ '','' @ [newline] @
     ''                origin'' @ [newline] @
     ''              );'' @ [newline] @
     ''            }'' @ [newline] @
     ''          });'' @ [newline] @
     ''          window.opener?.postMessage('' @ [apostrophe] @ ''authorizing:'' @ prov @ [apostrophe] @ '', '' @ [apostrophe] @ ''*'' @ [apostrophe] @ '');'' @ [newline] @
     ''        })();'' @ [newline] @
     ''      </script></body></html>'' @ [newline] @
     ''    ''"

definition outputHTML :: "args \<Rightarrow> response" where
  "outputHTML a =
     (let prov = (case provider a of None \<Rightarrow> ''github'' | Some p \<Rightarrow> p);
          state = (if truthy (error a) then ''error'' else ''success'');
          content =
            (if truthy (error a) then
               stringify_object
                 [(''provider'', Some (JStr prov)), (''error'', error a),
                  (''errorCode'', errorCode a)]
             else
               stringify_object [(''provider'', Some (JStr prov)), (''token'', token a)])
      in \<lparr>status = 200,
          body = html_template prov state content,
          headers =
            [(''Content-Type'', ''text/html;charset=UTF-8''),
             (''Set-Cookie'',
              ''csrf-token=deleted; HttpOnly; Max-Age=0; Path=/; SameSite=Lax; Secure'')]\<rparr>)"

section \<open>handleAuth\<close>

definition hex_upper :: "nat \<Rightarrow> char" where
  "hex_upper n = ''0123456789ABCDEF'' ! (n mod 16)"

definition percent_byte :: "nat \<Rightarrow> string" where
  "percent_byte n = [CHR ''%'', hex_upper (n div 16), hex_upper n]"

text \<open>
  The \<open>application/x-www-form-urlencoded\<close> serializer behind
  \<open>URLSearchParams.toString\<close>: a space becomes \<open>+\<close>, the ASCII letters and digits and
  \<open>* - . _\<close> stay, every other byte of the UTF-8 encoding is percent-encoded (a code
  unit from U+0080 to U+00FF has two bytes).
\<close>

definition urlencode_char :: "char \<Rightarrow> string" where
  "urlencode_char c =
     (if c = CHR '' '' then ''+''
      else if c \<in> set ''*-._0123456789ABCDEFGHIJKLMNOPQRSTUVWXYZabcdefghijklmnopqrstuvwxyz''
        then [c]
      else if (of_char c :: nat) < 128 then percent_byte (of_char c)
      else percent_byte (192 + of_char c div 64) @ percent_byte (128 + of_char c mod 64))"

definition urlencode :: "string \<Rightarrow> string" where
  "urlencode s = concat (map urlencode_char s)"

definition URLSearchParams_toString :: "(string \<times> string) list \<Rightarrow> string" where
  "URLSearchParams_toString params =
     join ''&'' (map (\<lambda>p. urlencode (fst p) @ ''='' @ urlencode (snd p)) params)"

text \<open>
  \<open>handleAuth\<close>. The third argument is the string \<open>crypto.randomUUID()\<close> returns for
  this request.
\<close>

definition handleAuth :: "request \<Rightarrow> env \<Rightarrow> string \<Rightarrow> failure + response" where
  "handleAuth request env uuid =
     (let domain = fromEntries (searchParams request) ''site_id'';
          hostname = (case GITHUB_HOSTNAME env of None \<Rightarrow> ''github.com'' | Some h \<Rightarrow> h);
          listed =
            (if truthy_string (ALLOWED_DOMAINS env) then
               some_domain_matches (split_comma (the (ALLOWED_DOMAINS env)))
                 (case domain of None \<Rightarrow> [] | Some d \<Rightarrow> d)
             else Inr True)
      in case listed of
           Inl e \<Rightarrow> Inl e
         | Inr False \<Rightarrow>
             Inr (outputHTML
                   \<lparr>provider = None, token = None,
                    error = Some (JStr ''Your domain is not allowed to use the authenticator.''),
                    errorCode = Some (JStr ''UNSUPPORTED_DOMAIN'')\<rparr>)
         | Inr True \<Rightarrow>
             (let csrfToken = remove_hyphens uuid in
              if \<not> truthy_string (GITHUB_CLIENT_ID env) \<or>
                 \<not> truthy_string (GITHUB_CLIENT_SECRET env) then
                Inr (outputHTML
                      \<lparr>provider = None, token = None,
                       error = Some (JStr ''OAuth app client ID or secret is not configured.''),
                       errorCode = Some (JStr ''MISCONFIGURED_CLIENT'')\<rparr>)
              else
                (let params =
                       URLSearchParams_toString
                         [(''client_id'', the (GITHUB_CLIENT_ID env)),
                          (''scope'', ''repo,user''),
                          (''state'', csrfToken)];
                     authURL = ''https://'' @ hostname @ ''/login/oauth/authorize?'' @ params
                 in Inr \<lparr>status = 302, body = [],
                         headers =
                           [(''Location'', authURL),
                            (''Set-Cookie'',
                             ''csrf-token='' @ csrfToken @ ''; '' @
                             ''HttpOnly; Path=/; Max-Age=600; SameSite=Lax; Secure'')]\<rparr>)))"

text \<open>
  The format of the strings \<open>crypto.randomUUID()\<close> returns: 36 characters, lowercase
  hexadecimal digits in groups of 8, 4, 4, 4 and 12 with a hyphen between the groups.
  \<open>True\<close> marks the place of a digit.
\<close>

definition hex_digit_lower :: "char \<Rightarrow> bool" where
  "hex_digit_lower c = (c \<in> set ''0123456789abcdef'')"



section \<open>handleCallback\<close>

text \<open>
  The regular expression literal \<open>/\bcsrf-token=([0-9a-f]{32})\b/\<close>, searched in the
  Cookie header. \<open>word_char\<close> is the class \<open>\w\<close> that \<open>\b\<close> looks at; a position is a
  word boundary when exactly one of its two neighbours is a word character (no
  character counts as not one).
\<close>

definition word_char :: "char \<Rightarrow> bool" where
  "word_char c =
     (c \<in> set ''abcdefghijklmnopqrstuvwxyzABCDEFGHIJKLMNOPQRSTUVWXYZ0123456789_'')"

definition word_boundary :: "char option \<Rightarrow> char option \<Rightarrow> bool" where
  "word_boundary prev next =
     ((case prev of None \<Rightarrow> False | Some c \<Rightarrow> word_char c) \<noteq>
      (case next of None \<Rightarrow> False | Some c \<Rightarrow> word_char c))"

definition first_char :: "string \<Rightarrow> char option" where
  "first_char s = (case s of [] \<Rightarrow> None | c # _ \<Rightarrow> Some c)"

text \<open>
  One attempt of the match, at the position whose left neighbour is \<open>prev\<close> and whose
  rest of the input is \<open>s\<close>; the result is the capture group.
\<close>

definition csrf_match_at :: "char option \<Rightarrow> string \<Rightarrow> string option" where
  "csrf_match_at prev s =
     (let digits = take 32 (drop 11 s) in
      if word_boundary prev (first_char s) \<and>
         prefix ''csrf-token='' s \<and>
         length digits = 32 \<and> list_all hex_digit_lower digits \<and>
         word_boundary (Some (last digits)) (first_char (drop 43 s))
      then Some digits else None)"

text \<open>The search: the leftmost position where the attempt succeeds.\<close>

fun csrf_search :: "char option \<Rightarrow> string \<Rightarrow> string option" where
  "csrf_search prev [] = csrf_match_at prev []"
| "csrf_search prev (c # cs) =
     (case csrf_match_at prev (c # cs) of
        Some digits \<Rightarrow> Some digits
      | None \<Rightarrow> csrf_search (Some c) cs)"

text \<open>
  \<open>headers.get('Cookie')?.match(...) ?? []\<close> and its second element: \<open>None\<close> is
  \<open>undefined\<close>, when there is no Cookie header or no match in it.
\<close>

definition cookie_token :: "string option \<Rightarrow> string option" where
  "cookie_token header = (case header of None \<Rightarrow> None | Some h \<Rightarrow> csrf_search None h)"

text \<open>
  What the outbound \<open>fetch\<close> of the token request ends in: the promise rejects, or
  there is a response, whose \<open>json()\<close> gives a value or rejects (\<open>None\<close>).
\<close>

datatype fetch_result = Network_failure | Http_response "json option"

text \<open>
  Reading a property of a parsed value, for the names \<open>access_token\<close> and \<open>error\<close>,
  which only an object can have as a property. Reading a property of \<open>null\<close> throws;
  \<open>handleCallback\<close> has that case before it calls this function.
\<close>

fun get_property :: "json \<Rightarrow> string \<Rightarrow> json option" where
  "get_property (JObj ps) key = map_of ps key"
| "get_property v key = None"

text \<open>
  \<open>handleCallback\<close>. The third argument is the outbound \<open>fetch\<close>, as a function of the
  URL and of the body of the POST request.
\<close>

definition handleCallback ::
    "request \<Rightarrow> env \<Rightarrow> (string \<Rightarrow> string \<Rightarrow> fetch_result) \<Rightarrow> response" where
  "handleCallback request env global_fetch =
     (let code = fromEntries (searchParams request) ''code'';
          state = fromEntries (searchParams request) ''state'';
          csrfToken = cookie_token (cookie request)
      in if \<not> truthy_string code \<or> \<not> truthy_string state then
           outputHTML
             \<lparr>provider = None, token = None,
              error = Some (JStr
                ''Failed to receive an authorization code. Please try again later.''),
              errorCode = Some (JStr ''AUTH_CODE_REQUEST_FAILED'')\<rparr>
         else if \<not> truthy_string csrfToken \<or> state \<noteq> csrfToken then
           outputHTML
             \<lparr>provider = None, token = None,
              error = Some (JStr
                ''Potential CSRF attack detected. Authentication flow aborted.''),
              errorCode = Some (JStr ''CSRF_DETECTED'')\<rparr>
         else if \<not> truthy_string (GITHUB_CLIENT_ID env) \<or>
                 \<not> truthy_string (GITHUB_CLIENT_SECRET env) then
           outputHTML
             \<lparr>provider = None, token = None,
              error = Some (JStr ''OAuth app client ID or secret is not configured.''),
              errorCode = Some (JStr ''MISCONFIGURED_CLIENT'')\<rparr>
         else
           (let hostname = (case GITHUB_HOSTNAME env of None \<Rightarrow> ''github.com'' | Some h \<Rightarrow> h);
                tokenURL = ''https://'' @ hostname @ ''/login/oauth/access_token'';
                requestBody =
                  stringify_object
                    [(''code'', Some (JStr (the code))),
                     (''client_id'', Some (JStr (the (GITHUB_CLIENT_ID env)))),
                     (''client_secret'', Some (JStr (the (GITHUB_CLIENT_SECRET env))))]
            in case global_fetch tokenURL requestBody of
                 Network_failure \<Rightarrow>
                   outputHTML
                     \<lparr>provider = None, token = None,
                      error = Some (JStr
                        ''Failed to request an access token. Please try again later.''),
                      errorCode = Some (JStr ''TOKEN_REQUEST_FAILED'')\<rparr>
               | Http_response parsed \<Rightarrow>
                   (if parsed = None \<or> parsed = Some JNull then
                      outputHTML
                        \<lparr>provider = None, token = None,
                         error = Some (JStr
                           ''Server responded with malformed data. Please try again later.''),
                         errorCode = Some (JStr ''MALFORMED_RESPONSE'')\<rparr>
                    else
                      outputHTML
                        \<lparr>provider = None,
                         token = get_property (the parsed) ''access_token'',
                         error = get_property (the parsed) ''error'',
                         errorCode = None\<rparr>)))"

section \<open>The request handler\<close>

text \<open>
  The \<open>fetch\<close> handler of the worker. Besides the request and the environment it takes
  what the two handlers take from the runtime: the UUID and the outbound \<open>fetch\<close>.
\<close>

definition fetch ::
    "request \<Rightarrow> env \<Rightarrow> string \<Rightarrow> (string \<Rightarrow> string \<Rightarrow> fetch_result) \<Rightarrow>
     failure + response" where
  "fetch request env uuid global_fetch =
     (if method request = ''GET'' \<and>
         pathname request \<in> set [''/oauth'', ''/oauth/authorize''] then
        handleAuth request env uuid
      else if method request = ''GET'' \<and>
         pathname request \<in> set [''/callback'', ''/oauth/redirect''] then
        Inr (handleCallback request env global_fetch)
      else Inr \<lparr>status = 404, body = [], headers = []\<rparr>)"

section \<open>Example inputs\<close>

text \<open>An outbound \<open>fetch\<close> that rejects, and one whose response parses to a given value.\<close>

definition no_response :: "string \<Rightarrow> string \<Rightarrow> fetch_result" where
  "no_response url request_body = Network_failure"

definition respond_with :: "json option \<Rightarrow> string \<Rightarrow> string \<Rightarrow> fetch_result" where
  "respond_with parsed url request_body = Http_response parsed"

definition example_env :: env where
  "example_env =
     \<lparr>ALLOWED_DOMAINS = Some ''*.example.com'', GITHUB_CLIENT_ID = Some ''Iv1.8a61f9b3a7aba766'',
      GITHUB_CLIENT_SECRET = Some ''secret'', GITHUB_HOSTNAME = None\<rparr>"

definition example_uuid :: string where
  "example_uuid = ''123e4567-e89b-42d3-a456-426614174000''"

definition example_token :: string where
  "example_token = ''123e4567e89b42d3a456426614174000''"

text \<open>A callback request with the given query entries and Cookie header.\<close>

definition callback_request :: "(string \<times> string) list \<Rightarrow> string option \<Rightarrow> request" where
  "callback_request entries header =
     \<lparr>method = ''GET'', pathname = ''/callback'', searchParams = entries, cookie = header\<rparr>"

text \<open>An initiator request for the given \<open>site_id\<close>.\<close>

definition auth_request :: "string \<Rightarrow> request" where
  "auth_request domain =
     \<lparr>method = ''GET'', pathname = ''/oauth'', searchParams = [(''site_id'', domain)],
      cookie = None\<rparr>"

section \<open>The regular expression of an allow-list entry\<close>

lemma first_char_simps [simp]:
  "first_char [] = None" "first_char (c # cs) = Some c"
  by (simp_all add: first_char_def)

lemma regexp_special_syntax: "regexp_special c = syntax_character c"
  by (auto simp: regexp_special_def syntax_character_def)

lemma escapeRegExp_append: "escapeRegExp (a @ b) = escapeRegExp a @ escapeRegExp b"
  by (induction a) auto

lemma escaped_not_star:
  "first_char t \<noteq> Some (CHR ''*'') \<Longrightarrow> first_char (escapeRegExp p @ t) \<noteq> Some (CHR ''*'')"
  by (cases p) (auto simp: regexp_special_def)

lemma escaped_not_plus:
  "first_char t \<noteq> Some (CHR ''+'') \<Longrightarrow> first_char (escapeRegExp p @ t) \<noteq> Some (CHR ''+'')"
  by (cases p) (auto simp: regexp_special_def)

text \<open>
  In an escaped string the two characters \<open>\*\<close> stand only where the original has a
  \<open>*\<close>: the replacement passes over the escaped form of a string without \<open>*\<close>.
\<close>

lemma replace_first_escaped:
  "CHR ''*'' \<notin> set p \<Longrightarrow> first_char t \<noteq> Some (CHR ''*'') \<Longrightarrow>
   replace_first [backslash, CHR ''*''] rep (escapeRegExp p @ t) =
   escapeRegExp p @ replace_first [backslash, CHR ''*''] rep t"
proof (induction p)
  case Nil
  then show ?case by simp
next
  case (Cons c cs)
  let ?u = "escapeRegExp cs @ t"
  have u: "first_char ?u \<noteq> Some (CHR ''*'')"
    using Cons.prems(2) by (rule escaped_not_star)
  have ih: "replace_first [backslash, CHR ''*''] rep ?u =
            escapeRegExp cs @ replace_first [backslash, CHR ''*''] rep t"
    using Cons by simp
  from u have np: "\<not> prefix [CHR ''*''] ?u"
    by (cases ?u) auto
  show ?case
  proof (cases "regexp_special c")
    case True
    moreover have "c \<noteq> CHR ''*''" using Cons.prems(1) by auto
    ultimately show ?thesis using np ih by simp
  next
    case False
    then show ?thesis using np ih by simp
  qed
qed

lemma replace_first_plain:
  "CHR ''*'' \<notin> set p \<Longrightarrow>
   replace_first [backslash, CHR ''*''] rep (escapeRegExp p) = escapeRegExp p"
  using replace_first_escaped [of p "[]" rep] by simp

lemma replace_first_star:
  "CHR ''*'' \<notin> set pre \<Longrightarrow>
   replace_first [backslash, CHR ''*''] rep (escapeRegExp (pre @ CHR ''*'' # rest)) =
   escapeRegExp pre @ rep @ escapeRegExp rest"
  using replace_first_escaped [of pre "backslash # CHR ''*'' # escapeRegExp rest" rep]
  by (simp add: escapeRegExp_append regexp_special_def)

lemma allow_pattern_star:
  "CHR ''*'' \<notin> set pre \<Longrightarrow> trim str = pre @ CHR ''*'' # rest \<Longrightarrow>
   allow_pattern str = ''^'' @ escapeRegExp pre @ ''.+'' @ escapeRegExp rest @ ''$''"
  by (simp add: allow_pattern_def replace_first_star)

lemma parse_terms_escaped:
  "t \<noteq> [] \<Longrightarrow> first_char t \<noteq> Some (CHR ''+'') \<Longrightarrow>
   parse_terms (escapeRegExp p @ t) = map_option ((@) (literal p)) (parse_terms t)"
proof (induction p)
  case Nil
  show ?case by (simp add: option.map_ident map_option.identity)
next
  case (Cons c cs)
  let ?u = "escapeRegExp cs @ t"
  have u: "?u \<noteq> []" "first_char ?u \<noteq> Some (CHR ''+'')"
    using Cons.prems escaped_not_plus by auto
  then obtain q r' where qr: "?u = q # r'" "q \<noteq> CHR ''+''"
    by (cases ?u) auto
  have atom: "parse_atom (escapeRegExp (c # cs) @ t) = Some (Lit c, ?u)"
    using qr by (auto simp: regexp_special_syntax syntax_character_def)
  have nd: "escapeRegExp (c # cs) @ t \<noteq> ''$''"
    using u by (auto simp: regexp_special_def)
  have "parse_terms (escapeRegExp (c # cs) @ t) =
        map_option ((#) (One (Lit c))) (parse_terms ?u)"
    by (subst parse_terms.simps) (simp add: atom nd qr del: escapeRegExp.simps)
  also have "parse_terms ?u = map_option ((@) (literal cs)) (parse_terms t)"
    using Cons by simp
  finally show ?case by (simp add: option.map_comp comp_def)
qed

lemma parse_terms_dot_plus:
  "parse_terms (CHR ''.'' # CHR ''+'' # t) = map_option ((#) (Plus AnyChar)) (parse_terms t)"
  by (subst parse_terms.simps) simp

lemma parse_terms_end: "parse_terms ''$'' = Some []"
  by (subst parse_terms.simps) simp

lemma RegExp_plain:
  "CHR ''*'' \<notin> set (trim str) \<Longrightarrow> RegExp (allow_pattern str) = Some (literal (trim str))"
  by (simp add: RegExp_def allow_pattern_def replace_first_plain parse_terms_escaped
      parse_terms_end)

lemma RegExp_star:
  assumes "CHR ''*'' \<notin> set pre" and "trim str = pre @ CHR ''*'' # rest"
  shows "RegExp (allow_pattern str) = Some (literal pre @ Plus AnyChar # literal rest)"
proof -
  have "parse_terms (escapeRegExp pre @ ''.+'' @ escapeRegExp rest @ ''$'') =
        Some (literal pre @ Plus AnyChar # literal rest)"
    using parse_terms_escaped [of "''.+'' @ escapeRegExp rest @ ''$''" pre]
      parse_terms_escaped [of "''$''" rest]
    by (simp add: parse_terms_dot_plus parse_terms_end)
  then show ?thesis
    using assms by (simp add: RegExp_def allow_pattern_star)
qed

text \<open>The worker never builds a source outside the modelled fragment.\<close>

lemma RegExp_allow_pattern: "\<exists>re. RegExp (allow_pattern str) = Some re"
proof (cases "CHR ''*'' \<in> set (trim str)")
  case True
  then obtain pre rest where "trim str = pre @ CHR ''*'' # rest" "CHR ''*'' \<notin> set pre"
    by (auto dest: split_list_first)
  then show ?thesis using RegExp_star by blast
next
  case False
  then show ?thesis using RegExp_plain by blast
qed

lemma domain_matches_total: "\<exists>b. domain_matches str domain = Inr b"
  using RegExp_allow_pattern [of str] by (auto simp: domain_matches_def)

lemma some_domain_matches_eq:
  "some_domain_matches strs domain =
   Inr (\<exists>str\<in>set strs. domain_matches str domain = Inr True)"
proof (induction strs)
  case Nil
  show ?case by simp
next
  case (Cons str strs)
  obtain b where "domain_matches str domain = Inr b"
    using domain_matches_total by blast
  then show ?case using Cons by (cases b) auto
qed

lemma match_literal:
  "match_terms (literal p @ r) d = (\<exists>d'. d = p @ d' \<and> match_terms r d')"
proof (induction p arbitrary: d)
  case Nil
  show ?case by simp
next
  case (Cons c cs)
  show ?case by (cases d) (auto simp: atom_matches_def Cons)
qed

lemma match_any_plus:
  "match_terms (Plus AnyChar # r) d =
   (\<exists>mid d'. mid \<noteq> [] \<and> (\<forall>c\<in>set mid. \<not> line_terminator c) \<and> d = mid @ d' \<and>
      match_terms r d')"
proof (induction d)
  case Nil
  show ?case by simp
next
  case (Cons c d)
  note IH = Cons
  show ?case (is "?L = ?R")
  proof
    assume ?L
    then have c: "\<not> line_terminator c"
      and alt: "match_terms (Plus AnyChar # r) d \<or> match_terms r d"
      by (auto simp: atom_matches_def)
    from alt show ?R
    proof
      assume "match_terms (Plus AnyChar # r) d"
      then obtain mid d' where "mid \<noteq> []" "\<forall>c\<in>set mid. \<not> line_terminator c"
        "d = mid @ d'" "match_terms r d'"
        using IH by auto
      then show ?R using c by (intro exI [of _ "c # mid"] exI [of _ d']) auto
    next
      assume "match_terms r d"
      then show ?R using c by (intro exI [of _ "[c]"] exI [of _ d]) auto
    qed
  next
    assume ?R
    then obtain mid d' where m: "mid \<noteq> []" "\<forall>c\<in>set mid. \<not> line_terminator c"
      "c # d = mid @ d'" "match_terms r d'"
      by auto
    then obtain m' where mid: "mid = c # m'" by (cases mid) auto
    show ?L
    proof (cases m')
      case Nil
      then show ?thesis using m mid by (auto simp: atom_matches_def)
    next
      case (Cons x xs)
      have "\<exists>mid d'. mid \<noteq> [] \<and> (\<forall>c\<in>set mid. \<not> line_terminator c) \<and> d = mid @ d' \<and>
              match_terms r d'"
        using m mid Cons by (intro exI [of _ "m'"] exI [of _ d']) auto
      then have "match_terms (Plus AnyChar # r) d"
        using IH by simp
      then show ?thesis using m mid by (auto simp: atom_matches_def)
    qed
  qed
qed

lemma match_literal_only: "match_terms (literal p) d = (d = p)"
  using match_literal [of p "[]" d] by auto

lemma domain_matches_plain:
  "CHR ''*'' \<notin> set (trim str) \<Longrightarrow> domain_matches str domain = Inr (domain = trim str)"
  by (simp add: domain_matches_def RegExp_plain match_literal_only)

lemma domain_matches_star:
  assumes "CHR ''*'' \<notin> set pre" and "trim str = pre @ CHR ''*'' # rest"
  shows "domain_matches str domain =
         Inr (\<exists>mid. mid \<noteq> [] \<and> (\<forall>c\<in>set mid. \<not> line_terminator c) \<and>
                domain = pre @ mid @ rest)"
proof -
  have "match_terms (literal pre @ Plus AnyChar # literal rest) domain =
        (\<exists>mid. mid \<noteq> [] \<and> (\<forall>c\<in>set mid. \<not> line_terminator c) \<and>
               domain = pre @ mid @ rest)"
    unfolding match_literal match_any_plus match_literal_only by blast
  then show ?thesis
    by (simp add: domain_matches_def RegExp_star [OF assms])
qed

text \<open>
  C1. An allow-list entry with a wildcard: the entry, trimmed, is \<open>pre * rest\<close> with no
  \<open>*\<close> in \<open>pre\<close>. The source of its regular expression is \<open>^\<close>, the escaped \<open>pre\<close>,
  \<open>.+\<close> in the place of the first escaped wildcard, the escaped \<open>rest\<close> and \<open>$\<close>; and
  the domain matches exactly when it is \<open>pre\<close>, one or more characters (none a line
  terminator) and \<open>rest\<close>, the whole of it, every character of \<open>pre\<close> and \<open>rest\<close>
  (a later \<open>*\<close> too) standing for itself. In particular \<open>*.example.com\<close> matches
  \<open>blog.example.com\<close> and \<open>docs.api.example.com\<close> and does not match \<open>example.com\<close>.
\<close>

theorem wildcard_entry_match:
  "(\<forall>str. CHR ''*'' \<in> set (trim str) \<longrightarrow>
      (\<exists>pre rest.
         trim str = pre @ CHR ''*'' # rest \<and> CHR ''*'' \<notin> set pre \<and>
         allow_pattern str = ''^'' @ escapeRegExp pre @ ''.+'' @ escapeRegExp rest @ ''$'' \<and>
         (\<forall>domain. domain_matches str domain =
            Inr (\<exists>mid. mid \<noteq> [] \<and> (\<forall>c\<in>set mid. \<not> line_terminator c) \<and>
                   domain = pre @ mid @ rest)))) \<and>
   domain_matches ''*.example.com'' ''blog.example.com'' = Inr True \<and>
   domain_matches ''*.example.com'' ''docs.api.example.com'' = Inr True \<and>
   domain_matches ''*.example.com'' ''example.com'' = Inr False"
proof (intro conjI allI impI)
  fix str
  assume "CHR ''*'' \<in> set (trim str)"
  then obtain pre rest where pr: "trim str = pre @ CHR ''*'' # rest" "CHR ''*'' \<notin> set pre"
    by (auto dest: split_list_first)
  then show "\<exists>pre rest.
         trim str = pre @ CHR ''*'' # rest \<and> CHR ''*'' \<notin> set pre \<and>
         allow_pattern str = ''^'' @ escapeRegExp pre @ ''.+'' @ escapeRegExp rest @ ''$'' \<and>
         (\<forall>domain. domain_matches str domain =
            Inr (\<exists>mid. mid \<noteq> [] \<and> (\<forall>c\<in>set mid. \<not> line_terminator c) \<and>
                   domain = pre @ mid @ rest))"
    using allow_pattern_star [of pre str rest] domain_matches_star [of pre str rest]
    by blast
next
  have t: "trim ''*.example.com'' = [] @ CHR ''*'' # ''.example.com''"
    by (simp add: trim_def white_space_def)
  have m: "domain_matches ''*.example.com'' domain =
      Inr (\<exists>mid. mid \<noteq> [] \<and> (\<forall>c\<in>set mid. \<not> line_terminator c) \<and>
             domain = [] @ mid @ ''.example.com'')" for domain
    by (rule domain_matches_star [OF _ t]) simp
  show "domain_matches ''*.example.com'' ''blog.example.com'' = Inr True"
    unfolding m by (simp add: line_terminator_def exI [of _ "''blog''"])
  show "domain_matches ''*.example.com'' ''docs.api.example.com'' = Inr True"
    unfolding m by (simp add: line_terminator_def exI [of _ "''docs.api''"])
  have "\<not> (\<exists>mid. mid \<noteq> [] \<and> ''example.com'' = mid @ ''.example.com'')"
  proof
    assume "\<exists>mid. mid \<noteq> [] \<and> ''example.com'' = mid @ ''.example.com''"
    then obtain mid where "''example.com'' = mid @ ''.example.com''" by blast
    then have "length ''example.com'' = length (mid @ ''.example.com'')" by simp
    then show False by simp
  qed
  then show "domain_matches ''*.example.com'' ''example.com'' = Inr False"
    unfolding m by auto
qed

theorem wildcard_entry_match_witness:
  "CHR ''*'' \<in> set (trim ''*.ex*mple.com '') \<and>
   allow_pattern ''*.ex*mple.com '' =
     ''^.+'' @ [backslash] @ ''.ex'' @ [backslash] @ ''*mple'' @ [backslash] @ ''.com$'' \<and>
   domain_matches ''*.ex*mple.com '' ''a.b.ex*mple.com'' = Inr True"
proof -
  have t: "trim ''*.ex*mple.com '' = ''*.ex*mple.com''"
    by (simp add: trim_def white_space_def)
  then have star: "CHR ''*'' \<in> set (trim ''*.ex*mple.com '')" by simp
  from wildcard_entry_match star obtain pre rest where
    pr: "trim ''*.ex*mple.com '' = pre @ CHR ''*'' # rest" "CHR ''*'' \<notin> set pre"
    and src: "allow_pattern ''*.ex*mple.com '' =
        ''^'' @ escapeRegExp pre @ ''.+'' @ escapeRegExp rest @ ''$''"
    and m: "\<And>domain. domain_matches ''*.ex*mple.com '' domain =
        Inr (\<exists>mid. mid \<noteq> [] \<and> (\<forall>c\<in>set mid. \<not> line_terminator c) \<and>
               domain = pre @ mid @ rest)"
    by blast
  from pr t have "pre = [] \<and> rest = ''.ex*mple.com''"
    by (cases pre) auto
  then have pre: "pre = []" and rest: "rest = ''.ex*mple.com''" by simp_all
  have "domain_matches ''*.ex*mple.com '' ''a.b.ex*mple.com'' = Inr True"
    unfolding m pre rest by (simp add: line_terminator_def exI [of _ "''a.b''"])
  moreover have "allow_pattern ''*.ex*mple.com '' =
     ''^.+'' @ [backslash] @ ''.ex'' @ [backslash] @ ''*mple'' @ [backslash] @ ''.com$''"
    unfolding src pre rest by (simp add: regexp_special_def)
  ultimately show ?thesis using star by simp
qed

section \<open>Responses of the renderer and of the handlers\<close>

lemma outputHTML_set_cookie:
  "map_of (headers (outputHTML a)) ''Set-Cookie'' =
   Some ''csrf-token=deleted; HttpOnly; Max-Age=0; Path=/; SameSite=Lax; Secure''"
  by (simp add: outputHTML_def Let_def)

lemma outputHTML_status: "status (outputHTML a) = 200"
  by (simp add: outputHTML_def Let_def)

lemma outputHTML_location: "map_of (headers (outputHTML a)) ''Location'' = None"
  by (simp add: outputHTML_def Let_def)

lemma handleCallback_rendered: "\<exists>a. handleCallback request env global_fetch = outputHTML a"
  by (auto simp: handleCallback_def Let_def split: fetch_result.splits)

text \<open>\<open>handleAuth\<close> always returns a response; its three outcomes.\<close>

lemma handleAuth_eq:
  "handleAuth request env uuid =
   Inr (if truthy_string (ALLOWED_DOMAINS env) \<and>
           \<not> (\<exists>str\<in>set (split_comma (the (ALLOWED_DOMAINS env))).
                domain_matches str
                  (case fromEntries (searchParams request) ''site_id'' of
                     None \<Rightarrow> [] | Some d \<Rightarrow> d) = Inr True) then
          outputHTML
            \<lparr>provider = None, token = None,
             error = Some (JStr ''Your domain is not allowed to use the authenticator.''),
             errorCode = Some (JStr ''UNSUPPORTED_DOMAIN'')\<rparr>
        else if \<not> truthy_string (GITHUB_CLIENT_ID env) \<or>
                \<not> truthy_string (GITHUB_CLIENT_SECRET env) then
          outputHTML
            \<lparr>provider = None, token = None,
             error = Some (JStr ''OAuth app client ID or secret is not configured.''),
             errorCode = Some (JStr ''MISCONFIGURED_CLIENT'')\<rparr>
        else
          \<lparr>status = 302, body = [],
           headers =
             [(''Location'',
               ''https://'' @
               (case GITHUB_HOSTNAME env of None \<Rightarrow> ''github.com'' | Some h \<Rightarrow> h) @
               ''/login/oauth/authorize?'' @
               URLSearchParams_toString
                 [(''client_id'', the (GITHUB_CLIENT_ID env)), (''scope'', ''repo,user''),
                  (''state'', remove_hyphens uuid)]),
              (''Set-Cookie'',
               ''csrf-token='' @ remove_hyphens uuid @
               ''; HttpOnly; Path=/; Max-Age=600; SameSite=Lax; Secure'')]\<rparr>)"
  by (simp add: handleAuth_def Let_def some_domain_matches_eq split: bool.splits)

lemma handleAuth_cases:
  "(\<exists>a. handleAuth request env uuid = Inr (outputHTML a)) \<or>
   (\<exists>url. handleAuth request env uuid =
      Inr \<lparr>status = 302, body = [],
           headers =
             [(''Location'', url),
              (''Set-Cookie'',
               ''csrf-token='' @ remove_hyphens uuid @
               ''; HttpOnly; Path=/; Max-Age=600; SameSite=Lax; Secure'')]\<rparr>)"
  unfolding handleAuth_eq by (simp split: if_splits) blast

lemma fetch_cases:
  "fetch request env uuid global_fetch = handleAuth request env uuid \<or>
   fetch request env uuid global_fetch = Inr (handleCallback request env global_fetch) \<or>
   fetch request env uuid global_fetch = Inr \<lparr>status = 404, body = [], headers = []\<rparr>"
  by (simp add: fetch_def)

text \<open>
  C4, as the code has it. Every response the renderer builds deletes the
  \<open>csrf-token\<close> cookie (Max-Age=0): every response of the Callback Handler, and every
  response of the worker that is neither the 302 redirect nor the 404. The redirect
  sets the cookie to the new token (Max-Age=600) and the 404 response has no header.
\<close>

theorem renderer_deletes_cookie:
  "map_of (headers (outputHTML a)) ''Set-Cookie'' =
     Some ''csrf-token=deleted; HttpOnly; Max-Age=0; Path=/; SameSite=Lax; Secure'' \<and>
   map_of (headers (handleCallback request env global_fetch)) ''Set-Cookie'' =
     Some ''csrf-token=deleted; HttpOnly; Max-Age=0; Path=/; SameSite=Lax; Secure'' \<and>
   (\<exists>r. fetch request env uuid global_fetch = Inr r \<and>
      (status r \<noteq> 302 \<and> status r \<noteq> 404 \<longrightarrow>
         map_of (headers r) ''Set-Cookie'' =
         Some ''csrf-token=deleted; HttpOnly; Max-Age=0; Path=/; SameSite=Lax; Secure'') \<and>
      (status r = 302 \<longrightarrow>
         map_of (headers r) ''Set-Cookie'' =
         Some (''csrf-token='' @ remove_hyphens uuid @
               ''; HttpOnly; Path=/; Max-Age=600; SameSite=Lax; Secure'')) \<and>
      (status r = 404 \<longrightarrow> headers r = []))"
proof (intro conjI)
  show "map_of (headers (outputHTML a)) ''Set-Cookie'' =
     Some ''csrf-token=deleted; HttpOnly; Max-Age=0; Path=/; SameSite=Lax; Secure''"
    by (rule outputHTML_set_cookie)
  show "map_of (headers (handleCallback request env global_fetch)) ''Set-Cookie'' =
     Some ''csrf-token=deleted; HttpOnly; Max-Age=0; Path=/; SameSite=Lax; Secure''"
    using handleCallback_rendered [of request env global_fetch] outputHTML_set_cookie
    by auto
  let ?P = "\<lambda>r. fetch request env uuid global_fetch = Inr r \<and>
      (status r \<noteq> 302 \<and> status r \<noteq> 404 \<longrightarrow>
         map_of (headers r) ''Set-Cookie'' =
         Some ''csrf-token=deleted; HttpOnly; Max-Age=0; Path=/; SameSite=Lax; Secure'') \<and>
      (status r = 302 \<longrightarrow>
         map_of (headers r) ''Set-Cookie'' =
         Some (''csrf-token='' @ remove_hyphens uuid @
               ''; HttpOnly; Path=/; Max-Age=600; SameSite=Lax; Secure'')) \<and>
      (status r = 404 \<longrightarrow> headers r = [])"
  consider (auth) "fetch request env uuid global_fetch = handleAuth request env uuid"
    | (callback) "fetch request env uuid global_fetch =
        Inr (handleCallback request env global_fetch)"
    | (other) "fetch request env uuid global_fetch =
        Inr \<lparr>status = 404, body = [], headers = []\<rparr>"
    using fetch_cases by blast
  then show "\<exists>r. ?P r"
  proof cases
    case auth
    from handleAuth_cases [of request env uuid] show ?thesis
    proof
      assume "\<exists>a. handleAuth request env uuid = Inr (outputHTML a)"
      then obtain a where "handleAuth request env uuid = Inr (outputHTML a)" ..
      with auth have "?P (outputHTML a)"
        by (simp add: outputHTML_set_cookie outputHTML_status)
      then show ?thesis ..
    next
      assume "\<exists>url. handleAuth request env uuid =
        Inr \<lparr>status = 302, body = [],
           headers =
             [(''Location'', url),
              (''Set-Cookie'',
               ''csrf-token='' @ remove_hyphens uuid @
               ''; HttpOnly; Path=/; Max-Age=600; SameSite=Lax; Secure'')]\<rparr>"
      then obtain url where "handleAuth request env uuid =
        Inr \<lparr>status = 302, body = [],
           headers =
             [(''Location'', url),
              (''Set-Cookie'',
               ''csrf-token='' @ remove_hyphens uuid @
               ''; HttpOnly; Path=/; Max-Age=600; SameSite=Lax; Secure'')]\<rparr>" ..
      with auth show ?thesis by simp
    qed
  next
    case callback
    obtain a where "handleCallback request env global_fetch = outputHTML a"
      using handleCallback_rendered by blast
    with callback have "?P (outputHTML a)"
      by (simp add: outputHTML_set_cookie outputHTML_status)
    then show ?thesis ..
  next
    case other
    then show ?thesis by simp
  qed
qed

theorem renderer_deletes_cookie_witness:
  "\<exists>r. fetch (auth_request ''example.com'') example_env example_uuid no_response = Inr r \<and>
        status r = 200 \<and>
        map_of (headers r) ''Set-Cookie'' =
          Some ''csrf-token=deleted; HttpOnly; Max-Age=0; Path=/; SameSite=Lax; Secure''"
proof -
  from renderer_deletes_cookie
    [of _ "auth_request ''example.com''" example_env no_response example_uuid]
  obtain r where
    r: "fetch (auth_request ''example.com'') example_env example_uuid no_response = Inr r"
    and d: "status r \<noteq> 302 \<and> status r \<noteq> 404 \<longrightarrow>
         map_of (headers r) ''Set-Cookie'' =
         Some ''csrf-token=deleted; HttpOnly; Max-Age=0; Path=/; SameSite=Lax; Secure''"
    by blast
  have "domain_matches ''*.example.com'' ''example.com'' = Inr False"
    by code_simp
  then have "fetch (auth_request ''example.com'') example_env example_uuid no_response =
        Inr (outputHTML
              \<lparr>provider = None, token = None,
               error = Some (JStr ''Your domain is not allowed to use the authenticator.''),
               errorCode = Some (JStr ''UNSUPPORTED_DOMAIN'')\<rparr>)"
    by (simp add: fetch_def auth_request_def handleAuth_def example_env_def truthy_string_def
        fromEntries_def)
  with r have "status r = 200" by (auto simp: outputHTML_status)
  with r d show ?thesis by auto
qed

theorem not_every_response_deletes_cookie:
  "fetch \<lparr>method = ''POST'', pathname = ''/oauth'', searchParams = [], cookie = None\<rparr>
     example_env example_uuid no_response =
     Inr \<lparr>status = 404, body = [], headers = []\<rparr> \<and>
   fetch (auth_request ''blog.example.com'') example_env example_uuid no_response =
     Inr \<lparr>status = 302, body = [],
          headers =
            [(''Location'',
              ''https://github.com/login/oauth/authorize?client_id=Iv1.8a61f9b3a7aba766&scope=repo%2Cuser&state=123e4567e89b42d3a456426614174000''),
             (''Set-Cookie'',
              ''csrf-token=123e4567e89b42d3a456426614174000; HttpOnly; Path=/; Max-Age=600; SameSite=Lax; Secure'')]\<rparr>"
proof
  show "fetch \<lparr>method = ''POST'', pathname = ''/oauth'', searchParams = [], cookie = None\<rparr>
     example_env example_uuid no_response =
     Inr \<lparr>status = 404, body = [], headers = []\<rparr>"
    by (simp add: fetch_def)
  have m: "domain_matches ''*.example.com'' ''blog.example.com'' = Inr True"
    by code_simp
  have p: "URLSearchParams_toString
         [(''client_id'', ''Iv1.8a61f9b3a7aba766''), (''scope'', ''repo,user''),
          (''state'', remove_hyphens example_uuid)] =
        ''client_id=Iv1.8a61f9b3a7aba766&scope=repo%2Cuser&state=123e4567e89b42d3a456426614174000''"
    by code_simp
  have u: "remove_hyphens example_uuid = ''123e4567e89b42d3a456426614174000''"
    by code_simp
  show "fetch (auth_request ''blog.example.com'') example_env example_uuid no_response =
     Inr \<lparr>status = 302, body = [],
          headers =
            [(''Location'',
              ''https://github.com/login/oauth/authorize?client_id=Iv1.8a61f9b3a7aba766&scope=repo%2Cuser&state=123e4567e89b42d3a456426614174000''),
             (''Set-Cookie'',
              ''csrf-token=123e4567e89b42d3a456426614174000; HttpOnly; Path=/; Max-Age=600; SameSite=Lax; Secure'')]\<rparr>"
    using m p u
    by (simp add: fetch_def auth_request_def handleAuth_def example_env_def truthy_string_def
        fromEntries_def Let_def)
qed

text \<open>
  C8. GET on \<open>/oauth\<close> or \<open>/oauth/authorize\<close> goes to the Authorization Initiator, GET
  on \<open>/callback\<close> or \<open>/oauth/redirect\<close> to the Callback Handler; every other method
  and path gets status 404 with an empty body.
\<close>

theorem router_dispatch:
  "(method request = ''GET'' \<and>
      (pathname request = ''/oauth'' \<or> pathname request = ''/oauth/authorize'') \<longrightarrow>
      fetch request env uuid global_fetch = handleAuth request env uuid) \<and>
   (method request = ''GET'' \<and>
      (pathname request = ''/callback'' \<or> pathname request = ''/oauth/redirect'') \<longrightarrow>
      fetch request env uuid global_fetch = Inr (handleCallback request env global_fetch)) \<and>
   (method request \<noteq> ''GET'' \<or>
      pathname request \<notin> {''/oauth'', ''/oauth/authorize'', ''/callback'', ''/oauth/redirect''} \<longrightarrow>
      fetch request env uuid global_fetch = Inr \<lparr>status = 404, body = [], headers = []\<rparr>)"
  by (auto simp: fetch_def)

theorem router_dispatch_witness:
  "fetch \<lparr>method = ''GET'', pathname = ''/oauth/authorize'', searchParams = [], cookie = None\<rparr>
     example_env example_uuid no_response =
     handleAuth
       \<lparr>method = ''GET'', pathname = ''/oauth/authorize'', searchParams = [], cookie = None\<rparr>
       example_env example_uuid \<and>
   fetch \<lparr>method = ''GET'', pathname = ''/oauth/redirect'', searchParams = [], cookie = None\<rparr>
     example_env example_uuid no_response =
     Inr (handleCallback
       \<lparr>method = ''GET'', pathname = ''/oauth/redirect'', searchParams = [], cookie = None\<rparr>
       example_env no_response) \<and>
   fetch \<lparr>method = ''POST'', pathname = ''/callback'', searchParams = [], cookie = None\<rparr>
     example_env example_uuid no_response =
     Inr \<lparr>status = 404, body = [], headers = []\<rparr> \<and>
   fetch \<lparr>method = ''GET'', pathname = ''/oauth/'', searchParams = [], cookie = None\<rparr>
     example_env example_uuid no_response =
     Inr \<lparr>status = 404, body = [], headers = []\<rparr>"
  using
    router_dispatch [of "\<lparr>method = ''GET'', pathname = ''/oauth/authorize'', searchParams = [],
      cookie = None\<rparr>" example_env example_uuid no_response]
    router_dispatch [of "\<lparr>method = ''GET'', pathname = ''/oauth/redirect'', searchParams = [],
      cookie = None\<rparr>" example_env example_uuid no_response]
    router_dispatch [of "\<lparr>method = ''POST'', pathname = ''/callback'', searchParams = [],
      cookie = None\<rparr>" example_env example_uuid no_response]
    router_dispatch [of "\<lparr>method = ''GET'', pathname = ''/oauth/'', searchParams = [],
      cookie = None\<rparr>" example_env example_uuid no_response]
  by simp

section \<open>The Authorization Initiator\<close>

text \<open>
  C5. With a configured, non-empty allow-list none of whose entries the requesting
  domain (\<open>site_id\<close>, or the empty string when it is missing) matches, the response is
  the renderer's page with UNSUPPORTED_DOMAIN, it has no Location header and its
  status is 200, whatever the client id and secret are.
\<close>

theorem unlisted_domain_refused:
  assumes "ALLOWED_DOMAINS env = Some allowed" and "allowed \<noteq> []"
    and "domain = (case fromEntries (searchParams request) ''site_id'' of
                     None \<Rightarrow> [] | Some d \<Rightarrow> d)"
    and "\<forall>str\<in>set (split_comma allowed). domain_matches str domain = Inr False"
  shows "\<exists>r. handleAuth request env uuid = Inr r \<and>
           r = outputHTML
                 \<lparr>provider = None, token = None,
                  error = Some (JStr ''Your domain is not allowed to use the authenticator.''),
                  errorCode = Some (JStr ''UNSUPPORTED_DOMAIN'')\<rparr> \<and>
           map_of (headers r) ''Location'' = None \<and> status r = 200"
proof -
  from assms have "\<not> (\<exists>str\<in>set (split_comma (the (ALLOWED_DOMAINS env))).
      domain_matches str
        (case fromEntries (searchParams request) ''site_id'' of None \<Rightarrow> [] | Some d \<Rightarrow> d) =
      Inr True)"
    by auto
  moreover from assms have "truthy_string (ALLOWED_DOMAINS env)"
    by (simp add: truthy_string_def)
  ultimately show ?thesis
    unfolding handleAuth_eq by (simp add: outputHTML_location outputHTML_status)
qed

theorem unlisted_domain_refused_witness:
  "ALLOWED_DOMAINS example_env = Some ''*.example.com'' \<and>
   truthy_string (GITHUB_CLIENT_ID example_env) \<and>
   truthy_string (GITHUB_CLIENT_SECRET example_env) \<and>
   domain_matches ''*.example.com'' ''example.com'' = Inr False \<and>
   handleAuth (auth_request ''example.com'') example_env example_uuid =
     Inr (outputHTML
           \<lparr>provider = None, token = None,
            error = Some (JStr ''Your domain is not allowed to use the authenticator.''),
            errorCode = Some (JStr ''UNSUPPORTED_DOMAIN'')\<rparr>)"
proof -
  have m: "domain_matches ''*.example.com'' ''example.com'' = Inr False"
    by code_simp
  have a: "ALLOWED_DOMAINS example_env = Some ''*.example.com''"
    by (simp add: example_env_def)
  have d: "''example.com'' =
      (case fromEntries (searchParams (auth_request ''example.com'')) ''site_id'' of
         None \<Rightarrow> [] | Some d \<Rightarrow> d)"
    by (simp add: auth_request_def fromEntries_def)
  have n: "\<forall>str\<in>set (split_comma ''*.example.com''). domain_matches str ''example.com'' = Inr False"
    using m by simp
  from unlisted_domain_refused [OF a _ d n, of example_uuid] m a show ?thesis
    by (auto simp: example_env_def truthy_string_def)
qed








section \<open>The callback checks\<close>

text \<open>
  C2. A callback whose \<open>code\<close> or \<open>state\<close> is missing (or empty) is answered with
  AUTH_CODE_REQUEST_FAILED, whatever the Cookie header is: the check stands before the
  CSRF check, so the answer is the same when the CSRF check would fail too.
\<close>

theorem callback_missing_parameter:
  assumes "fromEntries (searchParams request) ''code'' = None \<or>
           fromEntries (searchParams request) ''code'' = Some [] \<or>
           fromEntries (searchParams request) ''state'' = None \<or>
           fromEntries (searchParams request) ''state'' = Some []"
  shows "handleCallback request env global_fetch =
         outputHTML
           \<lparr>provider = None, token = None,
            error = Some (JStr
              ''Failed to receive an authorization code. Please try again later.''),
            errorCode = Some (JStr ''AUTH_CODE_REQUEST_FAILED'')\<rparr>"
  using assms by (auto simp: handleCallback_def truthy_string_def Let_def)

theorem callback_missing_parameter_witness:
  "fromEntries [(''state'', ''xyz'')] ''code'' = None \<and>
   cookie_token None \<noteq> fromEntries [(''state'', ''xyz'')] ''state'' \<and>
   handleCallback (callback_request [(''state'', ''xyz'')] None) example_env no_response =
     outputHTML
       \<lparr>provider = None, token = None,
        error = Some (JStr
          ''Failed to receive an authorization code. Please try again later.''),
        errorCode = Some (JStr ''AUTH_CODE_REQUEST_FAILED'')\<rparr>"
proof -
  have h: "fromEntries (searchParams (callback_request [(''state'', ''xyz'')] None)) ''code''
           = None"
    by (simp add: callback_request_def fromEntries_def)
  show ?thesis
    using callback_missing_parameter
      [of "callback_request [(''state'', ''xyz'')] None" example_env no_response] h
    by (simp add: fromEntries_def cookie_token_def)
qed

text \<open>
  C3. A callback carrying a \<open>code\<close> and a \<open>state\<close> (both present and not empty, which
  is what the handler tests): when no token was extracted from the Cookie header, or
  the token differs from \<open>state\<close>, the answer is CSRF_DETECTED for every \<open>code\<close> and for
  every outbound \<open>fetch\<close>; the answer does not depend on the token request, which is
  not made.
\<close>

theorem callback_csrf_detected:
  assumes "truthy_string (fromEntries (searchParams request) ''code'')"
    and "truthy_string (fromEntries (searchParams request) ''state'')"
    and "cookie_token (cookie request) = None \<or>
         cookie_token (cookie request) \<noteq> fromEntries (searchParams request) ''state''"
  shows "handleCallback request env global_fetch =
         outputHTML
           \<lparr>provider = None, token = None,
            error = Some (JStr
              ''Potential CSRF attack detected. Authentication flow aborted.''),
            errorCode = Some (JStr ''CSRF_DETECTED'')\<rparr>"
  using assms by (auto simp: handleCallback_def truthy_string_def Let_def)

theorem callback_csrf_detected_witness:
  "truthy_string (fromEntries [(''code'', ''abc''), (''state'', example_token)] ''code'') \<and>
   truthy_string (fromEntries [(''code'', ''abc''), (''state'', example_token)] ''state'') \<and>
   cookie_token (Some ''csrf-token=0123456789abcdef0123456789abcdef'') =
     Some ''0123456789abcdef0123456789abcdef'' \<and>
   handleCallback
     (callback_request [(''code'', ''abc''), (''state'', example_token)]
        (Some ''csrf-token=0123456789abcdef0123456789abcdef''))
     example_env (respond_with (Some (JObj [(''access_token'', JStr ''tok123'')]))) =
     outputHTML
       \<lparr>provider = None, token = None,
        error = Some (JStr
          ''Potential CSRF attack detected. Authentication flow aborted.''),
        errorCode = Some (JStr ''CSRF_DETECTED'')\<rparr> \<and>
   handleCallback
     (callback_request [(''code'', ''abc''), (''state'', example_token)] None)
     example_env (respond_with (Some (JObj [(''access_token'', JStr ''tok123'')]))) =
     outputHTML
       \<lparr>provider = None, token = None,
        error = Some (JStr
          ''Potential CSRF attack detected. Authentication flow aborted.''),
        errorCode = Some (JStr ''CSRF_DETECTED'')\<rparr>"
proof -
  let ?entries = "[(''code'', ''abc''), (''state'', example_token)]"
  let ?header = "Some ''csrf-token=0123456789abcdef0123456789abcdef''"
  have c: "truthy_string (fromEntries ?entries ''code'')"
    and s: "truthy_string (fromEntries ?entries ''state'')"
    by (simp_all add: fromEntries_def truthy_string_def example_token_def)
  have k: "cookie_token ?header = Some ''0123456789abcdef0123456789abcdef''"
    by code_simp
  have d: "cookie_token ?header \<noteq> fromEntries ?entries ''state''"
    unfolding k by (simp add: fromEntries_def example_token_def)
  have n: "cookie_token None = None"
    by (simp add: cookie_token_def)
  show ?thesis
    using
      callback_csrf_detected [of "callback_request ?entries ?header" example_env
        "respond_with (Some (JObj [(''access_token'', JStr ''tok123'')]))"]
      callback_csrf_detected [of "callback_request ?entries None" example_env
        "respond_with (Some (JObj [(''access_token'', JStr ''tok123'')]))"]
      c s k d n
    by (simp add: callback_request_def)
qed

section \<open>The token exchange\<close>

text \<open>What \<open>handleCallback\<close> does once the parameter, CSRF and configuration checks pass.\<close>

lemma handleCallback_exchange:
  assumes "truthy_string (fromEntries (searchParams request) ''code'')"
    and "truthy_string (fromEntries (searchParams request) ''state'')"
    and "cookie_token (cookie request) = fromEntries (searchParams request) ''state''"
    and "truthy_string (GITHUB_CLIENT_ID env)"
    and "truthy_string (GITHUB_CLIENT_SECRET env)"
  shows "handleCallback request env global_fetch =
     (case global_fetch
            (''https://'' @
             (case GITHUB_HOSTNAME env of None \<Rightarrow> ''github.com'' | Some h \<Rightarrow> h) @
             ''/login/oauth/access_token'')
            (stringify_object
               [(''code'', Some (JStr (the (fromEntries (searchParams request) ''code'')))),
                (''client_id'', Some (JStr (the (GITHUB_CLIENT_ID env)))),
                (''client_secret'', Some (JStr (the (GITHUB_CLIENT_SECRET env))))]) of
        Network_failure \<Rightarrow>
          outputHTML
            \<lparr>provider = None, token = None,
             error = Some (JStr
               ''Failed to request an access token. Please try again later.''),
             errorCode = Some (JStr ''TOKEN_REQUEST_FAILED'')\<rparr>
      | Http_response parsed \<Rightarrow>
          (if parsed = None \<or> parsed = Some JNull then
             outputHTML
               \<lparr>provider = None, token = None,
                error = Some (JStr
                  ''Server responded with malformed data. Please try again later.''),
                errorCode = Some (JStr ''MALFORMED_RESPONSE'')\<rparr>
           else
             outputHTML
               \<lparr>provider = None,
                token = get_property (the parsed) ''access_token'',
                error = get_property (the parsed) ''error'',
                errorCode = None\<rparr>))"
  using assms by (simp add: handleCallback_def Let_def)

text \<open>
  C7, as the code has it. For a callback that passes the parameter and CSRF checks
  with the credentials configured, \<open>outcome\<close> being what the POST to
  \<open>https://<hostname>/login/oauth/access_token\<close> with the JSON body of \<open>code\<close>,
  \<open>client_id\<close> and \<open>client_secret\<close> ends in: no response gives TOKEN_REQUEST_FAILED; a
  body that is not JSON, and also a body that is the JSON value \<open>null\<close>, gives
  MALFORMED_RESPONSE; every other parsed value has its \<open>access_token\<close> and \<open>error\<close>
  properties passed to the renderer as they are, with no \<open>errorCode\<close>.
\<close>

theorem token_exchange_outcomes:
  assumes "truthy_string (fromEntries (searchParams request) ''code'')"
    and "truthy_string (fromEntries (searchParams request) ''state'')"
    and "cookie_token (cookie request) = fromEntries (searchParams request) ''state''"
    and "truthy_string (GITHUB_CLIENT_ID env)"
    and "truthy_string (GITHUB_CLIENT_SECRET env)"
    and "outcome =
         global_fetch
           (''https://'' @
            (case GITHUB_HOSTNAME env of None \<Rightarrow> ''github.com'' | Some h \<Rightarrow> h) @
            ''/login/oauth/access_token'')
           (stringify_object
              [(''code'', Some (JStr (the (fromEntries (searchParams request) ''code'')))),
               (''client_id'', Some (JStr (the (GITHUB_CLIENT_ID env)))),
               (''client_secret'', Some (JStr (the (GITHUB_CLIENT_SECRET env))))])"
  shows "(outcome = Network_failure \<longrightarrow>
            handleCallback request env global_fetch =
            outputHTML
              \<lparr>provider = None, token = None,
               error = Some (JStr
                 ''Failed to request an access token. Please try again later.''),
               errorCode = Some (JStr ''TOKEN_REQUEST_FAILED'')\<rparr>) \<and>
         (outcome = Http_response None \<or> outcome = Http_response (Some JNull) \<longrightarrow>
            handleCallback request env global_fetch =
            outputHTML
              \<lparr>provider = None, token = None,
               error = Some (JStr
                 ''Server responded with malformed data. Please try again later.''),
               errorCode = Some (JStr ''MALFORMED_RESPONSE'')\<rparr>) \<and>
         (\<forall>v. outcome = Http_response (Some v) \<and> v \<noteq> JNull \<longrightarrow>
            handleCallback request env global_fetch =
            outputHTML
              \<lparr>provider = None, token = get_property v ''access_token'',
               error = get_property v ''error'', errorCode = None\<rparr>)"
  unfolding handleCallback_exchange [OF assms(1-5)] assms(6) [symmetric]
  by auto

theorem token_exchange_outcomes_witness:
  "cookie_token (Some ''csrf-token=123e4567e89b42d3a456426614174000'') =
     fromEntries [(''code'', ''abc''), (''state'', example_token)] ''state'' \<and>
   handleCallback
     (callback_request [(''code'', ''abc''), (''state'', example_token)]
        (Some ''csrf-token=123e4567e89b42d3a456426614174000''))
     example_env no_response =
     outputHTML
       \<lparr>provider = None, token = None,
        error = Some (JStr ''Failed to request an access token. Please try again later.''),
        errorCode = Some (JStr ''TOKEN_REQUEST_FAILED'')\<rparr> \<and>
   handleCallback
     (callback_request [(''code'', ''abc''), (''state'', example_token)]
        (Some ''csrf-token=123e4567e89b42d3a456426614174000''))
     example_env (respond_with None) =
     outputHTML
       \<lparr>provider = None, token = None,
        error = Some (JStr ''Server responded with malformed data. Please try again later.''),
        errorCode = Some (JStr ''MALFORMED_RESPONSE'')\<rparr> \<and>
   handleCallback
     (callback_request [(''code'', ''abc''), (''state'', example_token)]
        (Some ''csrf-token=123e4567e89b42d3a456426614174000''))
     example_env (respond_with (Some (JObj [(''error'', JStr ''bad_verification_code'')]))) =
     outputHTML
       \<lparr>provider = None, token = None, error = Some (JStr ''bad_verification_code''),
        errorCode = None\<rparr>"
proof -
  let ?request = "callback_request [(''code'', ''abc''), (''state'', example_token)]
        (Some ''csrf-token=123e4567e89b42d3a456426614174000'')"
  have k: "cookie_token (Some ''csrf-token=123e4567e89b42d3a456426614174000'') =
      Some ''123e4567e89b42d3a456426614174000''"
    by code_simp
  have c: "truthy_string (fromEntries (searchParams ?request) ''code'')"
    and s: "truthy_string (fromEntries (searchParams ?request) ''state'')"
    and t: "cookie_token (cookie ?request) = fromEntries (searchParams ?request) ''state''"
    by (simp_all add: k callback_request_def fromEntries_def truthy_string_def
        example_token_def)
  have i: "truthy_string (GITHUB_CLIENT_ID example_env)"
    and e: "truthy_string (GITHUB_CLIENT_SECRET example_env)"
    by (simp_all add: example_env_def truthy_string_def)
  note th = token_exchange_outcomes [OF c s t i e refl]
  from th [of no_response] th [of "respond_with None"]
    th [of "respond_with (Some (JObj [(''error'', JStr ''bad_verification_code'')]))"]
  show ?thesis
    using k by (simp add: no_response_def respond_with_def fromEntries_def example_token_def)
qed

theorem null_body_is_malformed:
  "handleCallback
     (callback_request [(''code'', ''abc''), (''state'', example_token)]
        (Some ''csrf-token=123e4567e89b42d3a456426614174000''))
     example_env (respond_with (Some JNull)) =
     outputHTML
       \<lparr>provider = None, token = None,
        error = Some (JStr ''Server responded with malformed data. Please try again later.''),
        errorCode = Some (JStr ''MALFORMED_RESPONSE'')\<rparr> \<and>
   handleCallback
     (callback_request [(''code'', ''abc''), (''state'', example_token)]
        (Some ''csrf-token=123e4567e89b42d3a456426614174000''))
     example_env (respond_with (Some JNull)) \<noteq>
     outputHTML
       \<lparr>provider = None, token = get_property JNull ''access_token'',
        error = get_property JNull ''error'', errorCode = None\<rparr>"
proof -
  have k: "cookie_token (Some ''csrf-token=123e4567e89b42d3a456426614174000'') =
      Some ''123e4567e89b42d3a456426614174000''"
    by code_simp
  have h: "handleCallback
     (callback_request [(''code'', ''abc''), (''state'', example_token)]
        (Some ''csrf-token=123e4567e89b42d3a456426614174000''))
     example_env (respond_with (Some JNull)) =
     outputHTML
       \<lparr>provider = None, token = None,
        error = Some (JStr ''Server responded with malformed data. Please try again later.''),
        errorCode = Some (JStr ''MALFORMED_RESPONSE'')\<rparr>"
    by (simp add: handleCallback_def k callback_request_def fromEntries_def truthy_string_def
        example_token_def example_env_def respond_with_def)
  have "body (outputHTML
       \<lparr>provider = None, token = None,
        error = Some (JStr ''Server responded with malformed data. Please try again later.''),
        errorCode = Some (JStr ''MALFORMED_RESPONSE'')\<rparr>) \<noteq>
     body (outputHTML
       \<lparr>provider = None, token = get_property JNull ''access_token'',
        error = get_property JNull ''error'', errorCode = None\<rparr>)"
    by (simp add: outputHTML_def html_template_def)
  then show ?thesis unfolding h by auto
qed

section \<open>An absent token\<close>

lemma provider_only:
  "stringify_object [(''provider'', Some (JStr ''github'')), (''token'', None)] =
   ''{'' @ [dquote] @ ''provider'' @ [dquote] @ '':'' @ [dquote] @ ''github'' @ [dquote] @ ''}''"
  by code_simp

text \<open>
  C9, as the code has it. For a callback that passes its checks, when the body of the
  response parses to a value other than \<open>null\<close> that has no \<open>access_token\<close> property
  and no truthy \<open>error\<close> property, the page is the success page whose payload is
  \<open>{"provider":"github"}\<close>: no token field, and no error. (A body that is \<open>null\<close> gives
  MALFORMED_RESPONSE.)
\<close>

theorem absent_token_is_success:
  assumes "truthy_string (fromEntries (searchParams request) ''code'')"
    and "truthy_string (fromEntries (searchParams request) ''state'')"
    and "cookie_token (cookie request) = fromEntries (searchParams request) ''state''"
    and "truthy_string (GITHUB_CLIENT_ID env)"
    and "truthy_string (GITHUB_CLIENT_SECRET env)"
    and "global_fetch
           (''https://'' @
            (case GITHUB_HOSTNAME env of None \<Rightarrow> ''github.com'' | Some h \<Rightarrow> h) @
            ''/login/oauth/access_token'')
           (stringify_object
              [(''code'', Some (JStr (the (fromEntries (searchParams request) ''code'')))),
               (''client_id'', Some (JStr (the (GITHUB_CLIENT_ID env)))),
               (''client_secret'', Some (JStr (the (GITHUB_CLIENT_SECRET env))))]) =
         Http_response (Some v)"
    and "v \<noteq> JNull"
    and "get_property v ''access_token'' = None"
    and "\<not> truthy (get_property v ''error'')"
  shows "handleCallback request env global_fetch =
         \<lparr>status = 200,
          body = html_template ''github'' ''success''
            (''{'' @ [dquote] @ ''provider'' @ [dquote] @ '':'' @ [dquote] @ ''github'' @
             [dquote] @ ''}''),
          headers =
            [(''Content-Type'', ''text/html;charset=UTF-8''),
             (''Set-Cookie'',
              ''csrf-token=deleted; HttpOnly; Max-Age=0; Path=/; SameSite=Lax; Secure'')]\<rparr>"
  unfolding handleCallback_exchange [OF assms(1-5)] assms(6)
  using assms(7-9) by (simp add: outputHTML_def provider_only)

theorem absent_token_is_success_witness:
  "get_property (JObj [(''error'', JStr [])]) ''access_token'' = None \<and>
   handleCallback
     (callback_request [(''code'', ''abc''), (''state'', example_token)]
        (Some ''csrf-token=123e4567e89b42d3a456426614174000''))
     example_env (respond_with (Some (JObj [(''error'', JStr [])]))) =
     \<lparr>status = 200,
      body = html_template ''github'' ''success''
        (''{'' @ [dquote] @ ''provider'' @ [dquote] @ '':'' @ [dquote] @ ''github'' @
         [dquote] @ ''}''),
      headers =
        [(''Content-Type'', ''text/html;charset=UTF-8''),
         (''Set-Cookie'',
          ''csrf-token=deleted; HttpOnly; Max-Age=0; Path=/; SameSite=Lax; Secure'')]\<rparr>"
proof -
  let ?request = "callback_request [(''code'', ''abc''), (''state'', example_token)]
        (Some ''csrf-token=123e4567e89b42d3a456426614174000'')"
  let ?v = "JObj [(''error'', JStr [])]"
  have k: "cookie_token (Some ''csrf-token=123e4567e89b42d3a456426614174000'') =
      Some ''123e4567e89b42d3a456426614174000''"
    by code_simp
  have c: "truthy_string (fromEntries (searchParams ?request) ''code'')"
    and s: "truthy_string (fromEntries (searchParams ?request) ''state'')"
    and t: "cookie_token (cookie ?request) = fromEntries (searchParams ?request) ''state''"
    by (simp_all add: k callback_request_def fromEntries_def truthy_string_def
        example_token_def)
  have i: "truthy_string (GITHUB_CLIENT_ID example_env)"
    and e: "truthy_string (GITHUB_CLIENT_SECRET example_env)"
    by (simp_all add: example_env_def truthy_string_def)
  have f: "respond_with (Some ?v) url request_body = Http_response (Some ?v)"
    for url request_body
    by (simp add: respond_with_def)
  have n: "?v \<noteq> JNull" and a: "get_property ?v ''access_token'' = None"
    and r: "\<not> truthy (get_property ?v ''error'')"
    by simp_all
  from absent_token_is_success [OF c s t i e f n a r] a show ?thesis by simp
qed

theorem null_body_is_not_success:
  "get_property JNull ''access_token'' = None \<and>
   \<not> truthy (get_property JNull ''error'') \<and>
   handleCallback
     (callback_request [(''code'', ''abc''), (''state'', example_token)]
        (Some ''csrf-token=123e4567e89b42d3a456426614174000''))
     example_env (respond_with (Some JNull)) =
     \<lparr>status = 200,
      body = html_template ''github'' ''error''
        (''{'' @ [dquote] @ ''provider'' @ [dquote] @ '':'' @ [dquote] @ ''github'' @
         [dquote] @ '','' @ [dquote] @ ''error'' @ [dquote] @ '':'' @ [dquote] @
         ''Server responded with malformed data. Please try again later.'' @ [dquote] @
         '','' @ [dquote] @ ''errorCode'' @ [dquote] @ '':'' @ [dquote] @
         ''MALFORMED_RESPONSE'' @ [dquote] @ ''}''),
      headers =
        [(''Content-Type'', ''text/html;charset=UTF-8''),
         (''Set-Cookie'',
          ''csrf-token=deleted; HttpOnly; Max-Age=0; Path=/; SameSite=Lax; Secure'')]\<rparr>"
proof -
  have k: "cookie_token (Some ''csrf-token=123e4567e89b42d3a456426614174000'') =
      Some ''123e4567e89b42d3a456426614174000''"
    by code_simp
  have j: "stringify_object
      [(''provider'', Some (JStr ''github'')),
       (''error'', Some (JStr
          ''Server responded with malformed data. Please try again later.'')),
       (''errorCode'', Some (JStr ''MALFORMED_RESPONSE''))] =
      ''{'' @ [dquote] @ ''provider'' @ [dquote] @ '':'' @ [dquote] @ ''github'' @
         [dquote] @ '','' @ [dquote] @ ''error'' @ [dquote] @ '':'' @ [dquote] @
         ''Server responded with malformed data. Please try again later.'' @ [dquote] @
         '','' @ [dquote] @ ''errorCode'' @ [dquote] @ '':'' @ [dquote] @
         ''MALFORMED_RESPONSE'' @ [dquote] @ ''}''"
    by code_simp
  show ?thesis
    by (simp add: handleCallback_def k callback_request_def fromEntries_def truthy_string_def
        example_token_def example_env_def respond_with_def outputHTML_def j Let_def)
qed

section \<open>The token of the Cookie header\<close>






lemma csrf_match_at_prefix: "csrf_match_at prev s = Some t \<Longrightarrow> prefix ''csrf-token='' s"
  by (auto simp: csrf_match_at_def Let_def split: if_splits)










end
